theory Spec2Isabelle
  imports Main "HOL-Library.Multiset"
begin

section \<open>Data model of the Shortcut parser\<close>

text \<open>
  The parser works on untyped JSON objects (\<open>Record<string, any>\<close>). Every property the
  code reads is an optional field here: \<open>None\<close> is JavaScript's \<open>undefined\<close> (the
  property is absent). Label IDs are integers, flags are booleans, dates are strings.
\<close>

text \<open>
  What the code throws: its own three error classes, the \<open>MissingTimeError\<close> of the package
  chrono-utils, the \<open>TypeError\<close> of the runtime, and \<open>FetchError\<close> for whatever a
  rejected HTTP call carries.
\<close>

datatype error =
    MissingIdError
  | MissingShortcutFieldsError
  | MissingTimeError
  | InvalidIsoDateConversionError
  | TypeError
  | FetchError

text \<open>The delta \<open>changes.label_ids\<close> of an action, with its two optional lists.\<close>

record label_delta =
  adds :: "int list option"
  removes :: "int list option"

record action_changes =
  changes_label_ids :: "label_delta option"

record webhook_action =
  action :: "string option"
  label_ids :: "int list option"
  changes :: "action_changes option"

text \<open>\<open>primary_id\<close> is a number in Shortcut's payloads and a string in the code's annotation.\<close>

datatype id_value = IdNum int | IdStr string

text \<open>
  The webhook body. \<open>other_keys\<close> lists the names of the properties of the object that the
  parser never reads; they only count for \<open>Object.keys(webhookbody).length\<close>.
\<close>

record webhook_body =
  primary_id :: "id_value option"
  changed_at :: "string option"
  actions :: "webhook_action list option"
  other_keys :: "string list"

text \<open>The story fetched from the Shortcut API (the detail record).\<close>

record story =
  story_id :: "int option"
  name :: "string option"
  created_at :: "string option"
  completed :: "bool option"
  archived :: "bool option"
  completed_at :: "string option"
  completed_at_override :: "string option"

text \<open>
  \<open>EventDto\<close>. A field that the object literal does not have, or whose value is
  \<open>undefined\<close>, is \<open>None\<close>.
\<close>

record EventDto =
  eventTime :: "string option"
  timeCreated :: string
  timeResolved :: "string option"
  id_dto :: string
  title :: "string option"
  message :: string

text \<open>The two fields of \<open>ShortcutParser\<close> set by its constructor.\<close>

record parser =
  shortcutIncidentLabelId :: int
  shortcutToken :: string

text \<open>
  What the parser takes from outside the repository: the HTTP call and \<open>response.json()\<close>
  (\<open>Inl\<close> a rejected promise; \<open>Inr None\<close> a \<open>null\<close> or empty object; \<open>Inr (Some s)\<close> a
  non-empty object), \<open>convertDateToUnixTimestamp\<close> of the package chrono-utils, which
  returns a string or throws (\<open>Inl\<close>; it is handed \<open>undefined\<close> where the story lacks the
  date), \<open>JSON.stringify\<close>, and the clock \<open>Date.now()\<close> in milliseconds since the epoch.
\<close>

record environment =
  fetch :: "string \<Rightarrow> id_value \<Rightarrow> error + story option"
  convertDateToUnixTimestamp :: "string option \<Rightarrow> error + string"
  JSON_stringify :: "story \<Rightarrow> string"
  Date_now :: int

section \<open>Numbers as strings\<close>

text \<open>
  \<open>Number.prototype.toString\<close> on an integer below \<open>10^21\<close> in magnitude: decimal digits,
  a minus sign if negative.
\<close>

definition digit_char :: "int \<Rightarrow> char" where
  "digit_char n = ''0123456789'' ! nat (n mod 10)"

text \<open>The digits of a number that is not negative.\<close>

function digits_toString :: "int \<Rightarrow> string" where
  "digits_toString n =
     (if n < 10 then [digit_char n] else digits_toString (n div 10) @ [digit_char (n mod 10)])"
  by pat_completeness auto
termination
  by (relation "measure nat") auto

declare digits_toString.simps [simp del]

definition int_toString :: "int \<Rightarrow> string" where
  "int_toString i = (if i < 0 then CHR ''-'' # digits_toString (- i) else digits_toString i)"

text \<open>A number that may be \<open>NaN\<close> (\<open>None\<close>).\<close>

definition number_toString :: "int option \<Rightarrow> string" where
  "number_toString x = (case x of None \<Rightarrow> ''NaN'' | Some i \<Rightarrow> int_toString i)"

section \<open>The label matcher\<close>

text \<open>\<open>xs?.filter(label => label == incidentLabelId).length > 0\<close>; \<open>undefined > 0\<close> is false.\<close>

definition contains_label :: "int \<Rightarrow> int list option \<Rightarrow> bool" where
  "contains_label incidentLabelId xs =
     (case xs of None \<Rightarrow> False
      | Some ls \<Rightarrow> length (filter (\<lambda>label. label = incidentLabelId) ls) > 0)"

text \<open>
  \<open>delta?.[check]\<close> on an object whose own properties are \<open>adds\<close> and \<open>removes\<close>, for a
  selector that names no inherited property; the code passes \<open>adds\<close> and \<open>removes\<close> only.
\<close>

definition delta_get :: "string \<Rightarrow> label_delta \<Rightarrow> int list option" where
  "delta_get check d =
     (if check = ''adds'' then adds d else if check = ''removes'' then removes d else None)"

text \<open>\<open>action?.['changes']?.['label_ids']?.[check]\<close>.\<close>

definition changed_labels :: "string \<Rightarrow> webhook_action \<Rightarrow> int list option" where
  "changed_labels check a =
     (case changes a of None \<Rightarrow> None
      | Some c \<Rightarrow> (case changes_label_ids c of None \<Rightarrow> None | Some d \<Rightarrow> delta_get check d))"

text \<open>The \<open>for\<close> loop of \<open>hasLabelId\<close>: the first action that matches returns \<open>true\<close>.\<close>

fun hasLabelId_loop :: "string \<Rightarrow> int \<Rightarrow> webhook_action list \<Rightarrow> bool" where
  "hasLabelId_loop check incidentLabelId [] = False"
| "hasLabelId_loop check incidentLabelId (a # rest) =
     (if contains_label incidentLabelId (label_ids a) then True
      else if contains_label incidentLabelId (changed_labels check a) then True
      else hasLabelId_loop check incidentLabelId rest)"

text \<open>\<open>Object.keys(undefined)\<close> throws a \<open>TypeError\<close>.\<close>

definition hasLabelId :: "string \<Rightarrow> int \<Rightarrow> webhook_action list option \<Rightarrow> error + bool" where
  "hasLabelId check incidentLabelId webhookActions =
     (case webhookActions of None \<Rightarrow> Inl TypeError
      | Some acts \<Rightarrow> Inr (hasLabelId_loop check incidentLabelId acts))"

definition hasIncidentLabel :: "parser \<Rightarrow> webhook_action list option \<Rightarrow> error + bool" where
  "hasIncidentLabel p webhookActions = hasLabelId ''adds'' (shortcutIncidentLabelId p) webhookActions"

section \<open>The parser\<close>

text \<open>\<open>Object.keys(webhookbody).length\<close>.\<close>

definition keys_count :: "webhook_body \<Rightarrow> nat" where
  "keys_count wb =
     (if primary_id wb = None then 0 else 1) + (if changed_at wb = None then 0 else 1)
     + (if actions wb = None then 0 else 1) + length (other_keys wb)"

text \<open>\<open>payloadInput.body || {}\<close>.\<close>

definition empty_body :: webhook_body where
  "empty_body = \<lparr>primary_id = None, changed_at = None, actions = None, other_keys = []\<rparr>"

definition body_or_empty :: "webhook_body option \<Rightarrow> webhook_body" where
  "body_or_empty b = (case b of None \<Rightarrow> empty_body | Some wb \<Rightarrow> wb)"

text \<open>\<open>!id\<close> for a value that is there: \<open>0\<close> and the empty string are falsy.\<close>

definition falsy_id :: "id_value \<Rightarrow> bool" where
  "falsy_id i = (case i of IdNum n \<Rightarrow> n = 0 | IdStr s \<Rightarrow> s = [])"

text \<open>
  \<open>getStoryData\<close>: \<open>undefined\<close> is falsy too. The token goes to the HTTP call in a header.
\<close>

definition getStoryData :: "environment \<Rightarrow> parser \<Rightarrow> webhook_body \<Rightarrow> error + story" where
  "getStoryData env p body =
     (case primary_id body of
        None \<Rightarrow> Inl MissingIdError
      | Some i \<Rightarrow>
          if falsy_id i then Inl MissingIdError
          else (case fetch env (shortcutToken p) i of
                  Inl e \<Rightarrow> Inl e
                | Inr None \<Rightarrow> Inl MissingShortcutFieldsError
                | Inr (Some storyData) \<Rightarrow> Inr storyData))"

definition getEventType :: "parser \<Rightarrow> webhook_body option \<Rightarrow> error + string" where
  "getEventType p body =
     (let webhookbody = body_or_empty body in
      if keys_count webhookbody = 0 then Inl MissingShortcutFieldsError
      else (case hasIncidentLabel p (actions webhookbody) of
              Inl e \<Rightarrow> Inl e
            | Inr b \<Rightarrow> if b then Inr ''incident'' else Inr ''change''))"

text \<open>\<open>webhookbody?.['actions'].filter(a => a?.['action'] == kind).length > 0\<close>, for an array.\<close>

definition has_action :: "string \<Rightarrow> webhook_action list \<Rightarrow> bool" where
  "has_action kind acts = (length (filter (\<lambda>a. action a = Some kind) acts) > 0)"

text \<open>
  The immediately invoked function that computes \<open>event\<close>. With no \<open>actions\<close> property,
  \<open>webhookbody?.['actions'].filter\<close> reads a property of \<open>undefined\<close>: a \<open>TypeError\<close>.
\<close>

definition getEvent :: "parser \<Rightarrow> webhook_body \<Rightarrow> story \<Rightarrow> error + string" where
  "getEvent p webhookbody body =
     (if completed body = Some True then Inr ''closed''
      else if archived body = Some True then Inr ''closed''
      else (case actions webhookbody of
              None \<Rightarrow> Inl TypeError
            | Some acts \<Rightarrow>
                if has_action ''create'' acts then
                  (case hasIncidentLabel p (Some acts) of
                     Inl e \<Rightarrow> Inl e
                   | Inr b \<Rightarrow> if b then Inr ''labeled'' else Inr ''opened'')
                else if has_action ''update'' acts then
                  (case hasLabelId ''adds'' (shortcutIncidentLabelId p) (Some acts) of
                     Inl e \<Rightarrow> Inl e
                   | Inr b \<Rightarrow>
                       if b then Inr ''labeled''
                       else (case hasLabelId ''removes'' (shortcutIncidentLabelId p) (Some acts) of
                               Inl e \<Rightarrow> Inl e
                             | Inr r \<Rightarrow> if r then Inr ''unlabeled'' else Inr ''opened''))
                else Inr ''unknown''))"

text \<open>The template literal \<open>`${body?.['id']}`\<close>.\<close>

definition id_string :: "int option \<Rightarrow> string" where
  "id_string i = (case i of None \<Rightarrow> ''undefined'' | Some n \<Rightarrow> int_toString n)"

text \<open>
  The properties of the object literal are evaluated in order: a conversion that throws
  ends the method.
\<close>

definition handleOpenedLabeled :: "environment \<Rightarrow> webhook_body \<Rightarrow> story \<Rightarrow> error + EventDto" where
  "handleOpenedLabeled env webhook body =
     (case convertDateToUnixTimestamp env (created_at body) of
        Inl e \<Rightarrow> Inl e
      | Inr created \<Rightarrow>
          Inr \<lparr>eventTime = changed_at webhook,
               timeCreated = created,
               timeResolved = None,
               id_dto = id_string (story_id body),
               title = name body,
               message = JSON_stringify env body\<rparr>)"

text \<open>\<open>a?.toString() || b?.toString()\<close> on strings: the empty string is falsy.\<close>

definition completion_date :: "story \<Rightarrow> string option" where
  "completion_date body =
     (case completed_at_override body of
        None \<Rightarrow> completed_at body
      | Some s \<Rightarrow> if s = [] then completed_at body else Some s)"

definition handleTimeResolved :: "environment \<Rightarrow> story \<Rightarrow> error + string" where
  "handleTimeResolved env body =
     (if completed body = Some True \<or> archived body = Some True
      then convertDateToUnixTimestamp env (completion_date body)
      else Inr (int_toString (Date_now env)))"

definition handleClosedUnlabeled :: "environment \<Rightarrow> webhook_body \<Rightarrow> story \<Rightarrow> error + EventDto" where
  "handleClosedUnlabeled env webhook body =
     (case convertDateToUnixTimestamp env (created_at body) of
        Inl e \<Rightarrow> Inl e
      | Inr created \<Rightarrow>
          (case handleTimeResolved env body of
             Inl e \<Rightarrow> Inl e
           | Inr resolved \<Rightarrow>
               Inr \<lparr>eventTime = changed_at webhook,
                    timeCreated = created,
                    timeResolved = Some resolved,
                    id_dto = id_string (story_id body),
                    title = name body,
                    message = JSON_stringify env body\<rparr>))"

definition unknown_dto :: EventDto where
  "unknown_dto =
     \<lparr>eventTime = Some ''UNKNOWN'',
      timeCreated = ''UNKNOWN'',
      timeResolved = Some ''UNKNOWN'',
      id_dto = ''UNKNOWN'',
      title = Some ''UNKNOWN'',
      message = ''UNKNOWN''\<rparr>"

text \<open>The \<open>switch\<close> on \<open>event\<close>.\<close>

definition dto_for_event :: "environment \<Rightarrow> string \<Rightarrow> webhook_body \<Rightarrow> story \<Rightarrow> error + EventDto" where
  "dto_for_event env event webhookbody body =
     (if event = ''opened'' \<or> event = ''labeled'' then handleOpenedLabeled env webhookbody body
      else if event = ''closed'' \<or> event = ''unlabeled'' then handleClosedUnlabeled env webhookbody body
      else Inr unknown_dto)"

text \<open>An error of the story fetch, of the classification or of a handler ends \<open>getPayload\<close>.\<close>

definition getPayload :: "environment \<Rightarrow> parser \<Rightarrow> webhook_body option \<Rightarrow> error + EventDto" where
  "getPayload env p input_body =
     (let webhookbody = body_or_empty input_body in
      if keys_count webhookbody = 0 then Inl MissingShortcutFieldsError
      else (case getStoryData env p webhookbody of
              Inl e \<Rightarrow> Inl e
            | Inr body \<Rightarrow>
                (case getEvent p webhookbody body of
                   Inl e \<Rightarrow> Inl e
                 | Inr event \<Rightarrow> dto_for_event env event webhookbody body)))"

section \<open>Timestamps (time.ts)\<close>

text \<open>\<open>input.substring(a, b)\<close> for \<open>a \<le> b\<close>.\<close>

definition substring :: "nat \<Rightarrow> nat \<Rightarrow> string \<Rightarrow> string" where
  "substring a b s = take (b - a) (drop a s)"

definition convertToIsoDate :: "string \<Rightarrow> error + string" where
  "convertToIsoDate input =
     (if input = [] \<or> length input \<noteq> 8 then Inl InvalidIsoDateConversionError
      else Inr (substring 0 4 input @ ''-'' @ substring 4 6 input @ ''-'' @ substring 6 8 input))"

text \<open>
  \<open>offsetInHours\<close> is taken as an integer. \<open>includes('-')\<close> is membership of the character,
  \<open>replace('-', '')\<close> removes its first occurrence.
\<close>

definition time_part :: "bool \<Rightarrow> string" where
  "time_part lastPossibleTime = (if lastPossibleTime then ''T23:59:59.999'' else ''T00:00:00.000'')"

definition createTimezoneConvertedDateString :: "string \<Rightarrow> int \<Rightarrow> bool \<Rightarrow> string" where
  "createTimezoneConvertedDateString formattedDate offsetInHours lastPossibleTime =
     (let offsetMarker = (if CHR ''-'' \<in> set (int_toString offsetInHours) then ''+'' else ''-'');
          numericOffset = remove1 (CHR ''-'') (int_toString offsetInHours);
          leadingZero = (if length numericOffset = 1 then ''0'' else []);
          time = time_part lastPossibleTime
      in formattedDate @ time @ offsetMarker @ leadingZero @ numericOffset @ '':00'')"

subsection \<open>The Date constructor on a date-time string\<close>

text \<open>
  \<open>new Date(s).getTime()\<close> for the ECMAScript date-time string format
  \<open>YYYY-MM-DDTHH:mm:ss.sss\<close> followed by an offset \<open>+HH:mm\<close> or \<open>-HH:mm\<close>, the only shape
  \<open>createTimezoneConvertedDateString\<close> builds. The result is in milliseconds since the epoch;
  \<open>None\<close> is \<open>NaN\<close> (an invalid date): a string that is not in the format, or an element out
  of its range.
\<close>

definition digit_value :: "char \<Rightarrow> int option" where
  "digit_value c = map_of (zip ''0123456789'' [0, 1, 2, 3, 4, 5, 6, 7, 8, 9]) c"

fun digits_value :: "int \<Rightarrow> string \<Rightarrow> int option" where
  "digits_value acc [] = Some acc"
| "digits_value acc (c # cs) =
     (case digit_value c of None \<Rightarrow> None | Some d \<Rightarrow> digits_value (10 * acc + d) cs)"

text \<open>A number of exactly \<open>n\<close> digits.\<close>

definition fixed_number :: "nat \<Rightarrow> string \<Rightarrow> int option" where
  "fixed_number n s = (if length s = n then digits_value 0 s else None)"

definition InLeapYear :: "int \<Rightarrow> bool" where
  "InLeapYear y = (y mod 4 = 0 \<and> (y mod 100 \<noteq> 0 \<or> y mod 400 = 0))"

definition DayFromYear :: "int \<Rightarrow> int" where
  "DayFromYear y =
     365 * (y - 1970) + (y - 1969) div 4 - (y - 1901) div 100 + (y - 1601) div 400"

text \<open>The day number of the first day of month \<open>m\<close> (from 0) within its year.\<close>

definition month_start :: "int \<Rightarrow> int \<Rightarrow> int" where
  "month_start y m =
     [0, 31, 59, 90, 120, 151, 181, 212, 243, 273, 304, 334] ! nat m
     + (if InLeapYear y \<and> 2 \<le> m then 1 else 0)"

text \<open>\<open>MakeDay(year, month, date)\<close> for a month from 0 to 11.\<close>

definition MakeDay :: "int \<Rightarrow> int \<Rightarrow> int \<Rightarrow> int" where
  "MakeDay y m d = DayFromYear y + month_start y m + d - 1"

definition MakeTime :: "int \<Rightarrow> int \<Rightarrow> int \<Rightarrow> int \<Rightarrow> int" where
  "MakeTime h m s ms = h * 3600000 + m * 60000 + s * 1000 + ms"

text \<open>\<open>YYYY-MM-DD\<close>, as a day number.\<close>

definition parse_date :: "string \<Rightarrow> int option" where
  "parse_date s =
     (if length s \<noteq> 10 \<or> s ! 4 \<noteq> CHR ''-'' \<or> s ! 7 \<noteq> CHR ''-'' then None
      else (case (fixed_number 4 (substring 0 4 s), fixed_number 2 (substring 5 7 s),
                  fixed_number 2 (substring 8 10 s)) of
              (Some y, Some m, Some d) \<Rightarrow>
                if 1 \<le> m \<and> m \<le> 12 \<and> 1 \<le> d \<and> d \<le> 31
                then Some (MakeDay y (m - 1) d) else None
            | _ \<Rightarrow> None))"

text \<open>\<open>THH:mm:ss.sss\<close>, as milliseconds within the day.\<close>

definition parse_time :: "string \<Rightarrow> int option" where
  "parse_time s =
     (if length s \<noteq> 13 \<or> s ! 0 \<noteq> CHR ''T'' \<or> s ! 3 \<noteq> CHR '':'' \<or> s ! 6 \<noteq> CHR '':''
         \<or> s ! 9 \<noteq> CHR ''.'' then None
      else (case (fixed_number 2 (substring 1 3 s), fixed_number 2 (substring 4 6 s),
                  fixed_number 2 (substring 7 9 s), fixed_number 3 (substring 10 13 s)) of
              (Some h, Some m, Some sec, Some ms) \<Rightarrow>
                if (h \<le> 23 \<and> m \<le> 59 \<and> sec \<le> 59) \<or> (h = 24 \<and> m = 0 \<and> sec = 0 \<and> ms = 0)
                then Some (MakeTime h m sec ms) else None
            | _ \<Rightarrow> None))"

text \<open>
  \<open>+HH:mm\<close> or \<open>-HH:mm\<close>, as the milliseconds that local time is ahead of UTC; the hours
  are two digits from 00 to 23.
\<close>

definition parse_offset :: "string \<Rightarrow> int option" where
  "parse_offset s =
     (if length s \<noteq> 6 \<or> (s ! 0 \<noteq> CHR ''+'' \<and> s ! 0 \<noteq> CHR ''-'') \<or> s ! 3 \<noteq> CHR '':'' then None
      else (case (fixed_number 2 (substring 1 3 s), fixed_number 2 (substring 4 6 s)) of
              (Some h, Some m) \<Rightarrow>
                if h \<le> 23 \<and> m \<le> 59
                then Some ((if s ! 0 = CHR ''+'' then 1 else - 1) * (h * 3600000 + m * 60000))
                else None
            | _ \<Rightarrow> None))"

definition Date_getTime :: "string \<Rightarrow> int option" where
  "Date_getTime s =
     (case (parse_date (take 10 s), parse_time (take 13 (drop 10 s)), parse_offset (drop 23 s)) of
        (Some day, Some t, Some off) \<Rightarrow> Some (day * 86400000 + t - off)
      | _ \<Rightarrow> None)"

text \<open>\<open>Math.floor(date.getTime() / 1000)\<close>; \<open>NaN\<close> stays \<open>NaN\<close>.\<close>

definition getTimestampForISODate :: "string \<Rightarrow> int \<Rightarrow> bool \<Rightarrow> int option" where
  "getTimestampForISODate formattedDate offsetInHours lastPossibleTime =
     (case Date_getTime (createTimezoneConvertedDateString formattedDate offsetInHours lastPossibleTime) of
        None \<Rightarrow> None
      | Some ms \<Rightarrow> Some (ms div 1000))"

definition getTimestampForInputDate :: "string \<Rightarrow> int \<Rightarrow> bool \<Rightarrow> error + string" where
  "getTimestampForInputDate date offsetInHours lastPossibleTime =
     (case convertToIsoDate date of
        Inl e \<Rightarrow> Inl e
      | Inr formatted \<Rightarrow>
          Inr (number_toString (getTimestampForISODate formatted offsetInHours lastPossibleTime)))"

section \<open>The notions the properties are stated with\<close>

text \<open>The label is in the action's direct \<open>label_ids\<close> list.\<close>

definition label_direct :: "int \<Rightarrow> webhook_action \<Rightarrow> bool" where
  "label_direct l a = (case label_ids a of None \<Rightarrow> False | Some ls \<Rightarrow> l \<in> set ls)"

text \<open>The label is among the \<open>adds\<close> of the action's \<open>changes.label_ids\<close>.\<close>

definition label_added :: "int \<Rightarrow> webhook_action \<Rightarrow> bool" where
  "label_added l a =
     (case changes a of None \<Rightarrow> False
      | Some c \<Rightarrow>
          (case changes_label_ids c of None \<Rightarrow> False
           | Some d \<Rightarrow> (case adds d of None \<Rightarrow> False | Some ls \<Rightarrow> l \<in> set ls)))"

text \<open>The label is among the \<open>removes\<close> of the action's \<open>changes.label_ids\<close>.\<close>

definition label_removed :: "int \<Rightarrow> webhook_action \<Rightarrow> bool" where
  "label_removed l a =
     (case changes a of None \<Rightarrow> False
      | Some c \<Rightarrow>
          (case changes_label_ids c of None \<Rightarrow> False
           | Some d \<Rightarrow> (case removes d of None \<Rightarrow> False | Some ls \<Rightarrow> l \<in> set ls)))"

text \<open>
  A date string \<open>YYYYMMDD\<close>: eight digits, the month from 01 to 12 and the day from 01
  to 31. Every calendar date written this way is one.
\<close>

definition valid_date_string :: "string \<Rightarrow> bool" where
  "valid_date_string d =
     (length d = 8 \<and>
      (case (fixed_number 4 (substring 0 4 d), fixed_number 2 (substring 4 6 d),
             fixed_number 2 (substring 6 8 d)) of
         (Some y, Some m, Some dd) \<Rightarrow> 1 \<le> m \<and> m \<le> 12 \<and> 1 \<le> dd \<and> dd \<le> 31
       | _ \<Rightarrow> False))"



section \<open>Example inputs\<close>

definition example_parser :: parser where
  "example_parser = \<lparr>shortcutIncidentLabelId = 5, shortcutToken = ''token''\<rparr>"

text \<open>
  A story that is open, the same story once completed, and the same story archived
  without ever being completed.
\<close>

definition open_story :: story where
  "open_story =
     \<lparr>story_id = Some 123, name = Some ''Story'', created_at = Some ''2023-01-01T00:00:00Z'',
      completed = Some False, archived = Some False, completed_at = None,
      completed_at_override = None\<rparr>"

definition completed_story :: story where
  "completed_story =
     \<lparr>story_id = Some 123, name = Some ''Story'', created_at = Some ''2023-01-01T00:00:00Z'',
      completed = Some True, archived = Some False, completed_at = Some ''2023-01-02T00:00:00Z'',
      completed_at_override = None\<rparr>"

definition archived_story :: story where
  "archived_story =
     \<lparr>story_id = Some 123, name = Some ''Story'', created_at = Some ''2023-01-01T00:00:00Z'',
      completed = Some False, archived = Some True, completed_at = None,
      completed_at_override = None\<rparr>"

text \<open>
  The JSON text of a story object that has the properties of the record, in their order,
  and no character to escape in its strings.
\<close>

definition json_property :: "string \<Rightarrow> string option \<Rightarrow> string list" where
  "json_property key v = (case v of None \<Rightarrow> [] | Some t \<Rightarrow> [''\"'' @ key @ ''\":'' @ t])"

definition json_string :: "string \<Rightarrow> string" where
  "json_string t = ''\"'' @ t @ ''\"''"

definition json_bool :: "bool \<Rightarrow> string" where
  "json_bool b = (if b then ''true'' else ''false'')"

fun json_join :: "string list \<Rightarrow> string" where
  "json_join [] = []"
| "json_join [x] = x"
| "json_join (x # y # ys) = x @ '','' @ json_join (y # ys)"

definition story_json :: "story \<Rightarrow> string" where
  "story_json s =
     ''{'' @ json_join
       (json_property ''id'' (map_option int_toString (story_id s))
        @ json_property ''name'' (map_option json_string (name s))
        @ json_property ''created_at'' (map_option json_string (created_at s))
        @ json_property ''completed'' (map_option json_bool (completed s))
        @ json_property ''archived'' (map_option json_bool (archived s))
        @ json_property ''completed_at'' (map_option json_string (completed_at s))
        @ json_property ''completed_at_override'' (map_option json_string (completed_at_override s)))
     @ ''}''"

text \<open>
  A date conversion that throws \<open>MissingTimeError\<close> for a missing date and returns the
  milliseconds of the two dates of the example stories.
\<close>

definition example_convert :: "string option \<Rightarrow> error + string" where
  "example_convert d =
     (case d of
        None \<Rightarrow> Inl MissingTimeError
      | Some t \<Rightarrow>
          if t = [] then Inl MissingTimeError
          else if t = ''2023-01-01T00:00:00Z'' then Inr ''1672531200000''
          else if t = ''2023-01-02T00:00:00Z'' then Inr ''1672617600000''
          else Inr ''NaN'')"

text \<open>An environment whose API returns the given story, at the instant 2023-01-03T00:00:00Z.\<close>

definition example_env :: "story \<Rightarrow> environment" where
  "example_env s =
     \<lparr>fetch = (\<lambda>token i. Inr (Some s)),
      convertDateToUnixTimestamp = example_convert,
      JSON_stringify = story_json,
      Date_now = 1672704000000\<rparr>"

definition example_action :: "string \<Rightarrow> int list option \<Rightarrow> label_delta option \<Rightarrow> webhook_action" where
  "example_action kind direct delta =
     \<lparr>action = Some kind, label_ids = direct,
      changes = (case delta of None \<Rightarrow> None | Some d \<Rightarrow> Some \<lparr>changes_label_ids = Some d\<rparr>)\<rparr>"

definition example_body :: "webhook_action list option \<Rightarrow> webhook_body" where
  "example_body acts =
     \<lparr>primary_id = Some (IdNum 123), changed_at = Some ''2023-01-03T00:00:00Z'',
      actions = acts, other_keys = [''id'', ''version'']\<rparr>"

text \<open>An update whose only change is the removal of label 5.\<close>

definition label_removal :: webhook_action where
  "label_removal = example_action ''update'' None (Some \<lparr>adds = None, removes = Some [5]\<rparr>)"

text \<open>The DTOs of the completed story, of a created story and of the removal of the label.\<close>

definition example_closed_dto :: EventDto where
  "example_closed_dto =
     \<lparr>eventTime = Some ''2023-01-03T00:00:00Z'', timeCreated = ''1672531200000'',
      timeResolved = Some ''1672617600000'', id_dto = ''123'', title = Some ''Story'',
      message = story_json completed_story\<rparr>"

definition example_opened_dto :: EventDto where
  "example_opened_dto =
     \<lparr>eventTime = Some ''2023-01-03T00:00:00Z'', timeCreated = ''1672531200000'',
      timeResolved = None, id_dto = ''123'', title = Some ''Story'',
      message = story_json open_story\<rparr>"

definition example_unlabeled_dto :: EventDto where
  "example_unlabeled_dto =
     \<lparr>eventTime = Some ''2023-01-03T00:00:00Z'', timeCreated = ''1672531200000'',
      timeResolved = Some ''1672704000000'', id_dto = ''123'', title = Some ''Story'',
      message = story_json open_story\<rparr>"

section \<open>Properties of the label matcher\<close>

lemma contains_label_set:
  "contains_label l xs = (case xs of None \<Rightarrow> False | Some ls \<Rightarrow> l \<in> set ls)"
  by (cases xs) (auto simp: contains_label_def filter_empty_conv)

lemma contains_label_direct: "contains_label l (label_ids a) = label_direct l a"
  by (simp add: contains_label_set label_direct_def)

lemma contains_label_adds: "contains_label l (changed_labels ''adds'' a) = label_added l a"
  by (simp add: contains_label_set label_added_def changed_labels_def delta_get_def
      split: option.splits)

lemma contains_label_removes: "contains_label l (changed_labels ''removes'' a) = label_removed l a"
  by (simp add: contains_label_set label_removed_def changed_labels_def delta_get_def
      split: option.splits)

lemma hasLabelId_loop_ex:
  "hasLabelId_loop check l acts =
     (\<exists>a \<in> set acts. contains_label l (label_ids a) \<or> contains_label l (changed_labels check a))"
  by (induction acts) auto

lemma hasLabelId_adds:
  "hasLabelId ''adds'' l (Some acts) = Inr (\<exists>a \<in> set acts. label_direct l a \<or> label_added l a)"
  by (simp add: hasLabelId_def hasLabelId_loop_ex contains_label_direct contains_label_adds)

lemma hasLabelId_removes:
  "hasLabelId ''removes'' l (Some acts) =
     Inr (\<exists>a \<in> set acts. label_direct l a \<or> label_removed l a)"
  by (simp add: hasLabelId_def hasLabelId_loop_ex contains_label_direct contains_label_removes)

lemma has_action_ex: "has_action kind acts = (\<exists>a \<in> set acts. action a = Some kind)"
  by (auto simp: has_action_def filter_empty_conv)

text \<open>
  C4: for every action list, target label ID and check selector (\<open>adds\<close> or \<open>removes\<close>),
  \<open>hasLabelId\<close> returns true if and only if some action has the target in its direct
  \<open>label_ids\<close> or in the delta of its \<open>changes.label_ids\<close> that the selector names; the
  result is the same for every reordering of the actions.
\<close>

theorem hasLabelId_any_match:
  assumes "check = ''adds'' \<or> check = ''removes''"
  shows "hasLabelId check l (Some acts) =
           Inr (\<exists>a \<in> set acts.
                  label_direct l a \<or> (if check = ''adds'' then label_added l a else label_removed l a))
         \<and> (\<forall>acts'. mset acts' = mset acts \<longrightarrow>
               hasLabelId check l (Some acts') = hasLabelId check l (Some acts))"
proof -
  have match: "hasLabelId check l (Some xs) =
           Inr (\<exists>a \<in> set xs.
                  label_direct l a \<or> (if check = ''adds'' then label_added l a else label_removed l a))"
    for xs
    using assms by (auto simp: hasLabelId_adds hasLabelId_removes)
  have "hasLabelId check l (Some acts') = hasLabelId check l (Some acts)"
    if "mset acts' = mset acts" for acts'
  proof -
    from that have "set acts' = set acts" by (rule mset_eq_setD)
    then show ?thesis unfolding match by simp
  qed
  with match show ?thesis by blast
qed

theorem hasLabelId_any_match_witness:
  "hasLabelId ''removes'' 5
     (Some [example_action ''update'' None None,
            example_action ''update'' None (Some \<lparr>adds = None, removes = Some [7, 5]\<rparr>)])
   = Inr True
   \<and> hasLabelId ''removes'' 5
     (Some [example_action ''update'' None (Some \<lparr>adds = None, removes = Some [7, 5]\<rparr>),
            example_action ''update'' None None])
   = Inr True"
proof -
  let ?a = "example_action ''update'' None None"
  let ?b = "example_action ''update'' None (Some \<lparr>adds = None, removes = Some [7, 5]\<rparr>)"
  have c: "''removes'' = ''adds'' \<or> ''removes'' = ''removes''" by simp
  have m: "mset [?b, ?a] = mset [?a, ?b]" by simp
  from hasLabelId_any_match [OF c, of 5 "[?a, ?b]"] m
  have "hasLabelId ''removes'' 5 (Some [?a, ?b]) = Inr (label_removed 5 ?b \<or> label_direct 5 ?a
          \<or> label_removed 5 ?a \<or> label_direct 5 ?b)"
    and "hasLabelId ''removes'' 5 (Some [?b, ?a]) = hasLabelId ''removes'' 5 (Some [?a, ?b])"
    by auto
  moreover have "label_removed 5 ?b"
    by (simp add: label_removed_def example_action_def)
  ultimately show ?thesis by simp
qed

section \<open>Properties of the parser\<close>

subsection \<open>Numbers written as strings\<close>





subsection \<open>From the fetch to the DTO\<close>

lemma getStoryData_fetched:
  assumes "primary_id wb = Some i" "\<not> falsy_id i" "fetch env (shortcutToken p) i = Inr (Some s)"
  shows "getStoryData env p wb = Inr s"
  using assms by (simp add: getStoryData_def)

lemma keys_count_primary_id: "primary_id wb = Some i \<Longrightarrow> keys_count wb \<noteq> 0"
  by (simp add: keys_count_def)

text \<open>Once the story is fetched, the payload is what the handler of the event returns.\<close>

lemma getPayload_fetched:
  assumes "primary_id wb = Some i" "\<not> falsy_id i" "fetch env (shortcutToken p) i = Inr (Some s)"
  shows "getPayload env p (Some wb) =
           (case getEvent p wb s of Inl e \<Rightarrow> Inl e | Inr ev \<Rightarrow> dto_for_event env ev wb s)"
  using keys_count_primary_id [OF assms(1)] getStoryData_fetched [OF assms]
  by (simp add: getPayload_def body_or_empty_def)

text \<open>Every DTO that \<open>getPayload\<close> returns is the DTO of the event of a fetched story.\<close>

lemma getPayload_returns:
  assumes "getPayload env p b = Inr dto"
  shows "\<exists>wb s ev. b = Some wb \<and> getStoryData env p wb = Inr s \<and> getEvent p wb s = Inr ev
           \<and> dto_for_event env ev wb s = Inr dto"
proof (cases b)
  case None
  with assms show ?thesis
    by (simp add: getPayload_def body_or_empty_def empty_body_def keys_count_def)
next
  case (Some wb)
  with assms show ?thesis
    by (auto simp: getPayload_def body_or_empty_def Let_def split: if_splits sum.splits)
qed

subsection \<open>The handlers\<close>

lemma handleOpenedLabeled_returns:
  assumes "handleOpenedLabeled env wb s = Inr dto"
  shows "eventTime dto = changed_at wb"
    and "convertDateToUnixTimestamp env (created_at s) = Inr (timeCreated dto)"
    and "timeResolved dto = None"
  using assms by (auto simp: handleOpenedLabeled_def split: sum.splits)

lemma handleClosedUnlabeled_returns:
  assumes "handleClosedUnlabeled env wb s = Inr dto"
  shows "eventTime dto = changed_at wb"
    and "convertDateToUnixTimestamp env (created_at s) = Inr (timeCreated dto)"
    and "\<exists>r. timeResolved dto = Some r \<and> handleTimeResolved env s = Inr r"
  using assms by (auto simp: handleClosedUnlabeled_def split: sum.splits)

lemma dto_for_event_simps:
  "dto_for_event env ''opened'' wb s = handleOpenedLabeled env wb s"
  "dto_for_event env ''labeled'' wb s = handleOpenedLabeled env wb s"
  "dto_for_event env ''closed'' wb s = handleClosedUnlabeled env wb s"
  "dto_for_event env ''unlabeled'' wb s = handleClosedUnlabeled env wb s"
  "dto_for_event env ''unknown'' wb s = Inr unknown_dto"
  by (simp_all add: dto_for_event_def)

subsection \<open>The event\<close>

text \<open>The five events.\<close>

lemma getEvent_cases [consumes 1, case_names opened labeled closed unlabeled unknown]:
  assumes "getEvent p wb s = Inr ev"
  obtains "ev = ''opened''" | "ev = ''labeled''" | "ev = ''closed''"
    | "ev = ''unlabeled''" | "ev = ''unknown''"
  using assms
  by (auto simp: getEvent_def hasIncidentLabel_def hasLabelId_def
      split: if_splits option.splits)


lemma getEvent_completed:
  assumes "completed s = Some True \<or> archived s = Some True"
  shows "getEvent p wb s = Inr ''closed''"
  using assms by (auto simp: getEvent_def)

lemma getEvent_create:
  assumes "completed s \<noteq> Some True" "archived s \<noteq> Some True" "actions wb = Some acts"
    "\<exists>a \<in> set acts. action a = Some ''create''"
  shows "getEvent p wb s =
           Inr (if \<exists>a \<in> set acts. label_direct (shortcutIncidentLabelId p) a
                                  \<or> label_added (shortcutIncidentLabelId p) a
                then ''labeled'' else ''opened'')"
  using assms
  by (simp add: getEvent_def has_action_ex hasIncidentLabel_def hasLabelId_adds)

lemma getEvent_update:
  assumes "completed s \<noteq> Some True" "archived s \<noteq> Some True" "actions wb = Some acts"
    "\<not> (\<exists>a \<in> set acts. action a = Some ''create'')"
    "\<exists>a \<in> set acts. action a = Some ''update''"
  shows "getEvent p wb s =
           Inr (if \<exists>a \<in> set acts. label_direct (shortcutIncidentLabelId p) a
                                  \<or> label_added (shortcutIncidentLabelId p) a
                then ''labeled''
                else if \<exists>a \<in> set acts. label_removed (shortcutIncidentLabelId p) a
                then ''unlabeled'' else ''opened'')"
  using assms
  by (simp add: getEvent_def has_action_ex hasIncidentLabel_def hasLabelId_adds hasLabelId_removes)

subsection \<open>The example inputs\<close>

lemmas example_defs =
  example_env_def example_parser_def example_body_def example_action_def
  open_story_def completed_story_def archived_story_def example_convert_def

lemma example_fetch:
  "primary_id (example_body acts) = Some (IdNum 123)"
  "\<not> falsy_id (IdNum 123)"
  "fetch (example_env s) (shortcutToken example_parser) (IdNum 123) = Inr (Some s)"
  by (simp_all add: example_body_def falsy_id_def example_env_def)

lemma example_actions: "actions (example_body (Some xs)) = Some xs"
  by (simp add: example_body_def)

lemma example_label: "shortcutIncidentLabelId example_parser = 5"
  by (simp add: example_parser_def)

lemma open_story_flags:
  "completed open_story \<noteq> Some True" "archived open_story \<noteq> Some True"
  by (simp_all add: open_story_def)

lemma label_removal_labels:
  "action label_removal = Some ''update''" "\<not> label_direct 5 label_removal"
  "\<not> label_added 5 label_removal" "label_removed 5 label_removal"
  by (simp_all add: label_removal_def example_action_def label_direct_def label_added_def
      label_removed_def)

lemma example_getPayload:
  "getPayload (example_env s) example_parser (Some (example_body acts)) =
     (case getEvent example_parser (example_body acts) s of
        Inl e \<Rightarrow> Inl e
      | Inr ev \<Rightarrow> dto_for_event (example_env s) ev (example_body acts) s)"
  by (rule getPayload_fetched [OF example_fetch])

lemma example_id: "id_string (Some 123) = ''123''"
  by (simp add: id_string_def int_toString_def digits_toString.simps digit_char_def)

lemma example_now: "int_toString (Date_now (example_env s)) = ''1672704000000''"
  by (simp add: example_env_def int_toString_def digits_toString.simps digit_char_def)

text \<open>No action at all: the event is \<open>unknown\<close>.\<close>

lemma example_unknown:
  "getEvent example_parser (example_body (Some [])) open_story = Inr ''unknown''"
  "getPayload (example_env open_story) example_parser (Some (example_body (Some [])))
     = Inr unknown_dto"
proof -
  show ev: "getEvent example_parser (example_body (Some [])) open_story = Inr ''unknown''"
    by (simp add: getEvent_def has_action_def example_body_def open_story_def)
  show "getPayload (example_env open_story) example_parser (Some (example_body (Some [])))
     = Inr unknown_dto"
    unfolding example_getPayload ev by (simp add: dto_for_event_simps)
qed

text \<open>The completed story, with a body that has no \<open>actions\<close> property.\<close>

lemma example_closed:
  "handleClosedUnlabeled (example_env completed_story) (example_body None) completed_story
     = Inr example_closed_dto"
  by (simp add: handleClosedUnlabeled_def handleTimeResolved_def completion_date_def
      example_id example_defs example_closed_dto_def)

text \<open>The archived story has no completion date: the conversion throws.\<close>

lemma example_archived:
  "handleClosedUnlabeled (example_env archived_story) (example_body None) archived_story
     = Inl MissingTimeError"
  by (simp add: handleClosedUnlabeled_def handleTimeResolved_def completion_date_def
      example_defs)

text \<open>The removal of the label from the open story.\<close>

lemma example_unlabeled:
  "getEvent example_parser (example_body (Some [label_removal])) open_story = Inr ''unlabeled''"
  "handleClosedUnlabeled (example_env open_story) (example_body (Some [label_removal])) open_story
     = Inr example_unlabeled_dto"
  "getPayload (example_env open_story) example_parser (Some (example_body (Some [label_removal])))
     = Inr example_unlabeled_dto"
proof -
  show ev: "getEvent example_parser (example_body (Some [label_removal])) open_story
              = Inr ''unlabeled''"
    by (simp add: getEvent_def has_action_def hasIncidentLabel_def hasLabelId_def
        contains_label_def changed_labels_def delta_get_def label_removal_def example_defs)
  have tr: "handleTimeResolved (example_env open_story) open_story = Inr ''1672704000000''"
    by (simp add: handleTimeResolved_def open_story_flags example_now)
  show h: "handleClosedUnlabeled (example_env open_story) (example_body (Some [label_removal]))
             open_story = Inr example_unlabeled_dto"
    unfolding handleClosedUnlabeled_def tr
    by (simp add: example_id example_defs example_unlabeled_dto_def)
  show "getPayload (example_env open_story) example_parser
          (Some (example_body (Some [label_removal]))) = Inr example_unlabeled_dto"
    unfolding example_getPayload ev by (simp add: dto_for_event_simps h)
qed

subsection \<open>Completed and archived stories\<close>

text \<open>
  C1: for every webhook body and every fetched story whose \<open>completed\<close> flag is true or
  whose \<open>archived\<close> flag is true, \<open>getPayload\<close> classifies the event as \<open>closed\<close> and
  takes the closed/unlabeled handling path, whatever the body's actions are (the body
  need not even have any): it returns what \<open>handleClosedUnlabeled\<close> returns, the DTO or
  the error of a date conversion.
\<close>

theorem getPayload_completed_closed:
  assumes "primary_id wb = Some i" "\<not> falsy_id i"
    "fetch env (shortcutToken p) i = Inr (Some s)"
    "completed s = Some True \<or> archived s = Some True"
  shows "getEvent p wb s = Inr ''closed'' \<and>
         getPayload env p (Some wb) = handleClosedUnlabeled env wb s"
proof -
  have ev: "getEvent p wb s = Inr ''closed''"
    using assms(4) by (rule getEvent_completed)
  then show ?thesis
    by (simp add: getPayload_fetched [OF assms(1-3)] dto_for_event_simps)
qed

theorem getPayload_completed_closed_witness:
  "completed completed_story = Some True \<and>
   getEvent example_parser (example_body None) completed_story = Inr ''closed'' \<and>
   getPayload (example_env completed_story) example_parser (Some (example_body None))
     = Inr example_closed_dto \<and>
   archived archived_story = Some True \<and>
   getEvent example_parser (example_body None) archived_story = Inr ''closed'' \<and>
   getPayload (example_env archived_story) example_parser (Some (example_body None))
     = Inl MissingTimeError"
proof -
  have 1: "primary_id (example_body None) = Some (IdNum 123)"
    by (rule example_fetch(1))
  have 2: "\<not> falsy_id (IdNum 123)"
    by (rule example_fetch(2))
  have c: "completed completed_story = Some True"
    by (simp add: completed_story_def)
  then have c': "completed completed_story = Some True \<or> archived completed_story = Some True" ..
  have 3: "fetch (example_env completed_story) (shortcutToken example_parser) (IdNum 123)
             = Inr (Some completed_story)"
    by (rule example_fetch(3))
  have a: "archived archived_story = Some True"
    by (simp add: archived_story_def)
  then have a': "completed archived_story = Some True \<or> archived archived_story = Some True" ..
  have 4: "fetch (example_env archived_story) (shortcutToken example_parser) (IdNum 123)
             = Inr (Some archived_story)"
    by (rule example_fetch(3))
  from getPayload_completed_closed [OF 1 2 3 c'] getPayload_completed_closed [OF 1 2 4 a'] c a
  show ?thesis by (simp add: example_closed example_archived)
qed

subsection \<open>Created stories\<close>

text \<open>
  C2, as stated, fails: a \<open>create\<close> action that has the incident label in its direct
  \<open>label_ids\<close>, and no \<open>changes\<close>, does not have the label among its adds, and the event
  is \<open>labeled\<close>, not \<open>opened\<close>.
\<close>

theorem getPayload_create_direct_label_counterexample:
  "completed open_story \<noteq> Some True \<and> archived open_story \<noteq> Some True \<and>
   action (example_action ''create'' (Some [5]) None) = Some ''create'' \<and>
   shortcutIncidentLabelId example_parser = 5 \<and>
   \<not> label_added 5 (example_action ''create'' (Some [5]) None) \<and>
   getEvent example_parser (example_body (Some [example_action ''create'' (Some [5]) None]))
     open_story = Inr ''labeled''"
  by (simp add: getEvent_def has_action_def hasIncidentLabel_def hasLabelId_def
      contains_label_def label_added_def example_defs)

text \<open>
  C2, amended: for every webhook body whose story is neither completed nor archived, if
  some action of the body has the action kind \<open>create\<close>, then \<open>getPayload\<close> classifies the
  event as \<open>labeled\<close> when the configured incident label ID is in the direct \<open>label_ids\<close>
  of some action or among the adds of some action, and as \<open>opened\<close> otherwise; either way
  it returns what \<open>handleOpenedLabeled\<close> returns, the DTO or the error of the date
  conversion.
\<close>

theorem getPayload_create:
  assumes "primary_id wb = Some i" "\<not> falsy_id i"
    "fetch env (shortcutToken p) i = Inr (Some s)"
    "completed s \<noteq> Some True" "archived s \<noteq> Some True"
    "actions wb = Some acts" "\<exists>a \<in> set acts. action a = Some ''create''"
  shows "getEvent p wb s =
           Inr (if \<exists>a \<in> set acts. label_direct (shortcutIncidentLabelId p) a
                                  \<or> label_added (shortcutIncidentLabelId p) a
                then ''labeled'' else ''opened'') \<and>
         getPayload env p (Some wb) = handleOpenedLabeled env wb s"
proof -
  note ev = getEvent_create [OF assms(4-7), of p]
  then show ?thesis
    by (simp add: getPayload_fetched [OF assms(1-3)] dto_for_event_simps)
qed

theorem getPayload_create_witness:
  "getEvent example_parser (example_body (Some [example_action ''create'' (Some [5]) None]))
     open_story = Inr ''labeled'' \<and>
   getEvent example_parser (example_body (Some [example_action ''create'' (Some [7]) None]))
     open_story = Inr ''opened'' \<and>
   getPayload (example_env open_story) example_parser
     (Some (example_body (Some [example_action ''create'' (Some [5]) None])))
     = Inr example_opened_dto"
proof -
  let ?a = "example_action ''create'' (Some [5]) None"
  let ?b = "example_action ''create'' (Some [7]) None"
  have a: "\<exists>x \<in> set [?a]. action x = Some ''create''"
    and b: "\<exists>x \<in> set [?b]. action x = Some ''create''"
    by (simp_all add: example_action_def)
  have dto: "handleOpenedLabeled (example_env open_story) (example_body (Some [?a])) open_story
               = Inr example_opened_dto"
    by (simp add: handleOpenedLabeled_def example_id example_defs example_opened_dto_def)
  have l: "label_direct 5 ?a" "\<not> label_direct 5 ?b" "\<not> label_added 5 ?b"
    by (simp_all add: label_direct_def label_added_def example_action_def)
  from getPayload_create [OF example_fetch open_story_flags example_actions a]
    getPayload_create [OF example_fetch open_story_flags example_actions b]
    dto l example_label
  show ?thesis by simp
qed

subsection \<open>Updated stories\<close>

text \<open>
  C3, as stated, fails: with one update action from which the incident label was removed,
  and a second action that has the label in its direct \<open>label_ids\<close>, there is no create
  action, the label is among the removes and among no adds, and the event is \<open>labeled\<close>,
  not \<open>unlabeled\<close>.
\<close>

theorem getPayload_update_direct_label_counterexample:
  "completed open_story \<noteq> Some True \<and> archived open_story \<noteq> Some True \<and>
   shortcutIncidentLabelId example_parser = 5 \<and>
   action label_removal = Some ''update'' \<and>
   action (example_action ''update'' (Some [5]) None) = Some ''update'' \<and>
   label_removed 5 label_removal \<and>
   \<not> label_added 5 label_removal \<and>
   \<not> label_added 5 (example_action ''update'' (Some [5]) None) \<and>
   getEvent example_parser
     (example_body (Some [label_removal, example_action ''update'' (Some [5]) None]))
     open_story = Inr ''labeled''"
  by (simp add: getEvent_def has_action_def hasIncidentLabel_def hasLabelId_def
      contains_label_def changed_labels_def delta_get_def label_added_def label_removed_def
      label_removal_def example_defs)

text \<open>
  C3, amended: for every webhook body whose story is neither completed nor archived and
  whose actions have no create action but at least one update action, \<open>getPayload\<close>
  classifies the event as \<open>labeled\<close> if the incident label is in the direct \<open>label_ids\<close> of
  some action or among the adds of some action; otherwise as \<open>unlabeled\<close> if the label is
  among the removes of some action; and as \<open>opened\<close> otherwise. In particular, for an
  update action with the incident label removed, and the label in no action's direct
  \<open>label_ids\<close> or adds, the event is \<open>unlabeled\<close>. It returns what the handler of that
  event returns, the DTO or the error of a date conversion.
\<close>

theorem getPayload_update:
  assumes "primary_id wb = Some i" "\<not> falsy_id i"
    "fetch env (shortcutToken p) i = Inr (Some s)"
    "completed s \<noteq> Some True" "archived s \<noteq> Some True"
    "actions wb = Some acts"
    "\<not> (\<exists>a \<in> set acts. action a = Some ''create'')"
    "\<exists>a \<in> set acts. action a = Some ''update''"
  shows "(let event =
            (if \<exists>a \<in> set acts. label_direct (shortcutIncidentLabelId p) a
                                \<or> label_added (shortcutIncidentLabelId p) a
             then ''labeled''
             else if \<exists>a \<in> set acts. label_removed (shortcutIncidentLabelId p) a
             then ''unlabeled'' else ''opened'')
          in getEvent p wb s = Inr event \<and>
             getPayload env p (Some wb) = dto_for_event env event wb s)"
proof -
  note ev = getEvent_update [OF assms(4-8), of p]
  then show ?thesis
    by (simp add: getPayload_fetched [OF assms(1-3)] Let_def)
qed

theorem getPayload_update_witness:
  "getEvent example_parser (example_body (Some [label_removal])) open_story
     = Inr ''unlabeled'' \<and>
   getPayload (example_env open_story) example_parser (Some (example_body (Some [label_removal])))
     = Inr example_unlabeled_dto"
proof -
  have c: "\<not> (\<exists>x \<in> set [label_removal]. action x = Some ''create'')"
    and u: "\<exists>x \<in> set [label_removal]. action x = Some ''update''"
    by (simp_all add: label_removal_labels)
  from getPayload_update [OF example_fetch open_story_flags example_actions c u]
    label_removal_labels example_label
  show ?thesis by (simp add: dto_for_event_simps example_unlabeled(2))
qed

subsection \<open>The field \<open>timeResolved\<close>\<close>

text \<open>
  C5, as stated, fails: for a body with no action the event is \<open>unknown\<close>, neither
  \<open>closed\<close> nor \<open>unlabeled\<close>, and the DTO returned has the field \<open>timeResolved\<close>, with
  the value \<open>UNKNOWN\<close>.
\<close>

theorem getPayload_unknown_timeResolved_counterexample:
  "getEvent example_parser (example_body (Some [])) open_story = Inr ''unknown'' \<and>
   getPayload (example_env open_story) example_parser (Some (example_body (Some [])))
     = Inr unknown_dto \<and>
   timeResolved unknown_dto = Some ''UNKNOWN''"
  by (simp add: example_unknown unknown_dto_def)

text \<open>
  C5, amended: for every EventDto returned by \<open>getPayload\<close>, the event is one of
  \<open>opened\<close>, \<open>labeled\<close>, \<open>closed\<close>, \<open>unlabeled\<close> and \<open>unknown\<close>, and the field
  \<open>timeResolved\<close> is present exactly when the event was classified as \<open>closed\<close>,
  \<open>unlabeled\<close> or \<open>unknown\<close>; for \<open>unknown\<close> it is the sentinel \<open>UNKNOWN\<close>; the DTOs
  for \<open>opened\<close> and \<open>labeled\<close> carry no \<open>timeResolved\<close>.
\<close>

theorem getPayload_timeResolved:
  assumes "getPayload env p b = Inr dto"
  shows "\<exists>wb s ev. b = Some wb \<and> getStoryData env p wb = Inr s \<and> getEvent p wb s = Inr ev \<and>
           ev \<in> set [''opened'', ''labeled'', ''closed'', ''unlabeled'', ''unknown''] \<and>
           (timeResolved dto \<noteq> None) = (ev = ''closed'' \<or> ev = ''unlabeled'' \<or> ev = ''unknown'') \<and>
           (ev = ''unknown'' \<longrightarrow> timeResolved dto = Some ''UNKNOWN'') \<and>
           (ev = ''opened'' \<or> ev = ''labeled'' \<longrightarrow> timeResolved dto = None)"
proof -
  from getPayload_returns [OF assms] obtain wb s ev
    where r: "b = Some wb" "getStoryData env p wb = Inr s" "getEvent p wb s = Inr ev"
      "dto_for_event env ev wb s = Inr dto"
    by blast
  from r(3) have "ev \<in> set [''opened'', ''labeled'', ''closed'', ''unlabeled'', ''unknown''] \<and>
      (timeResolved dto \<noteq> None) = (ev = ''closed'' \<or> ev = ''unlabeled'' \<or> ev = ''unknown'') \<and>
      (ev = ''unknown'' \<longrightarrow> timeResolved dto = Some ''UNKNOWN'') \<and>
      (ev = ''opened'' \<or> ev = ''labeled'' \<longrightarrow> timeResolved dto = None)"
  proof (cases rule: getEvent_cases)
    case opened
    with r(4) have "handleOpenedLabeled env wb s = Inr dto"
      by (simp add: dto_for_event_simps)
    from handleOpenedLabeled_returns(3) [OF this] opened show ?thesis by simp
  next
    case labeled
    with r(4) have "handleOpenedLabeled env wb s = Inr dto"
      by (simp add: dto_for_event_simps)
    from handleOpenedLabeled_returns(3) [OF this] labeled show ?thesis by simp
  next
    case closed
    with r(4) have "handleClosedUnlabeled env wb s = Inr dto"
      by (simp add: dto_for_event_simps)
    from handleClosedUnlabeled_returns(3) [OF this] closed show ?thesis by auto
  next
    case unlabeled
    with r(4) have "handleClosedUnlabeled env wb s = Inr dto"
      by (simp add: dto_for_event_simps)
    from handleClosedUnlabeled_returns(3) [OF this] unlabeled show ?thesis by auto
  next
    case unknown
    with r(4) have "dto = unknown_dto"
      by (simp add: dto_for_event_simps)
    with unknown show ?thesis by (simp add: unknown_dto_def)
  qed
  with r(1-3) show ?thesis by iprover
qed

theorem getPayload_timeResolved_witness:
  "getPayload (example_env open_story) example_parser (Some (example_body (Some [])))
     = Inr unknown_dto \<and>
   (\<exists>wb s ev. Some (example_body (Some [])) = Some wb \<and>
      getStoryData (example_env open_story) example_parser wb = Inr s \<and>
      getEvent example_parser wb s = Inr ev \<and>
      ev \<in> set [''opened'', ''labeled'', ''closed'', ''unlabeled'', ''unknown''] \<and>
      (timeResolved unknown_dto \<noteq> None)
         = (ev = ''closed'' \<or> ev = ''unlabeled'' \<or> ev = ''unknown'') \<and>
      (ev = ''unknown'' \<longrightarrow> timeResolved unknown_dto = Some ''UNKNOWN'') \<and>
      (ev = ''opened'' \<or> ev = ''labeled'' \<longrightarrow> timeResolved unknown_dto = None))"
proof -
  note h = example_unknown(2)
  from h getPayload_timeResolved [OF h] show ?thesis by (rule conjI)
qed

subsection \<open>The time fields\<close>




subsection \<open>Missing body, missing ID\<close>

text \<open>
  C9: every call of \<open>getPayload\<close> or \<open>getEventType\<close> with a missing or empty webhook body
  raises \<open>MissingShortcutFieldsError\<close>, whatever the environment; for every body that is
  not empty and has no \<open>primary_id\<close>, \<open>getPayload\<close> raises \<open>MissingIdError\<close> instead.
\<close>

theorem missing_body_errors:
  "((b = None \<or> (\<exists>wb. b = Some wb \<and> keys_count wb = 0)) \<longrightarrow>
      getPayload env p b = Inl MissingShortcutFieldsError \<and>
      getEventType p b = Inl MissingShortcutFieldsError) \<and>
   (\<forall>wb. b = Some wb \<and> keys_count wb \<noteq> 0 \<and> primary_id wb = None \<longrightarrow>
      getPayload env p b = Inl MissingIdError)"
proof -
  have k: "keys_count empty_body = 0"
    by (simp add: keys_count_def empty_body_def)
  show ?thesis
    by (auto simp: getPayload_def getEventType_def body_or_empty_def k getStoryData_def)
qed

theorem missing_body_errors_witness:
  "getPayload (example_env open_story) example_parser None = Inl MissingShortcutFieldsError \<and>
   getEventType example_parser None = Inl MissingShortcutFieldsError \<and>
   keys_count empty_body = 0 \<and>
   getPayload (example_env open_story) example_parser (Some empty_body)
     = Inl MissingShortcutFieldsError \<and>
   getEventType example_parser (Some empty_body) = Inl MissingShortcutFieldsError \<and>
   keys_count (empty_body\<lparr>actions := Some []\<rparr>) = 1 \<and>
   primary_id (empty_body\<lparr>actions := Some []\<rparr>) = None \<and>
   getPayload (example_env open_story) example_parser (Some (empty_body\<lparr>actions := Some []\<rparr>))
     = Inl MissingIdError"
proof -
  have k: "keys_count empty_body = 0" "keys_count (empty_body\<lparr>actions := Some []\<rparr>) = 1"
    "primary_id (empty_body\<lparr>actions := Some []\<rparr>) = None"
    by (simp_all add: keys_count_def empty_body_def)
  from missing_body_errors [of None "example_env open_story" example_parser]
    missing_body_errors [of "Some empty_body" "example_env open_story" example_parser]
    missing_body_errors [of "Some (empty_body\<lparr>actions := Some []\<rparr>)"
      "example_env open_story" example_parser] k
  show ?thesis by simp
qed

subsection \<open>The event type\<close>

text \<open>
  C10, as stated, fails: a body with a \<open>primary_id\<close> and no \<open>actions\<close> property is not
  empty, and \<open>getEventType\<close> returns neither string: \<open>Object.keys(undefined)\<close> throws.
\<close>

theorem getEventType_no_actions_counterexample:
  "keys_count (example_body None) = 4 \<and>
   getEventType example_parser (Some (example_body None)) = Inl TypeError"
  by (simp add: getEventType_def body_or_empty_def keys_count_def hasIncidentLabel_def
      hasLabelId_def example_body_def)

text \<open>
  C10, amended: for every webhook body that has an \<open>actions\<close> list (such a body is not
  empty), \<open>getEventType\<close> returns exactly one of the two strings \<open>incident\<close> and
  \<open>change\<close>, and it returns \<open>incident\<close> if and only if some action has the configured
  incident label ID in its direct \<open>label_ids\<close> or among the adds of its
  \<open>changes.label_ids\<close>.
\<close>

theorem getEventType_incident_or_change:
  assumes "actions wb = Some acts"
  shows "keys_count wb \<noteq> 0 \<and>
         getEventType p (Some wb) =
           Inr (if \<exists>a \<in> set acts. label_direct (shortcutIncidentLabelId p) a
                                  \<or> label_added (shortcutIncidentLabelId p) a
                then ''incident'' else ''change'')"
  using assms
  by (simp add: getEventType_def body_or_empty_def keys_count_def hasIncidentLabel_def
      hasLabelId_adds)

theorem getEventType_incident_or_change_witness:
  "getEventType example_parser
     (Some (example_body (Some [example_action ''update'' None
                                  (Some \<lparr>adds = Some [5], removes = None\<rparr>)]))) = Inr ''incident'' \<and>
   getEventType example_parser (Some (example_body (Some [label_removal]))) = Inr ''change''"
proof -
  let ?a = "example_action ''update'' None (Some \<lparr>adds = Some [5], removes = None\<rparr>)"
  have l: "label_added 5 ?a"
    by (simp add: label_added_def example_action_def)
  have a: "getEventType example_parser (Some (example_body (Some [?a]))) = Inr ''incident''"
    using getEventType_incident_or_change [OF example_actions, of "[?a]" example_parser]
      l example_label
    by simp
  have b: "getEventType example_parser (Some (example_body (Some [label_removal]))) = Inr ''change''"
    using getEventType_incident_or_change [OF example_actions, of "[label_removal]" example_parser]
      label_removal_labels example_label
    by simp
  from a b show ?thesis by (rule conjI)
qed

section \<open>Properties of the timestamp conversion\<close>

lemma length_time_part: "length (time_part lp) = 13"
  by (simp add: time_part_def)

lemma parse_time_part: "parse_time (time_part lp) = Some (if lp then 86399999 else 0)"
  by (simp add: time_part_def parse_time_def fixed_number_def substring_def digit_value_def
      MakeTime_def)

text \<open>The built string is the date, the time and an offset part that does not depend on them.\<close>

lemma create_split:
  "createTimezoneConvertedDateString f h lp =
     f @ time_part lp @ drop (length f + 13) (createTimezoneConvertedDateString f h lp)"
  by (simp add: createTimezoneConvertedDateString_def Let_def length_time_part)

text \<open>
  For offsets of at most 23 hours either way, the offset part is read back as the offset
  with its sign flipped.
\<close>

lemma offset_part:
  assumes "- 23 \<le> h" "h \<le> 23"
  shows "parse_offset (drop (length f + 13) (createTimezoneConvertedDateString f h lp))
           = Some (- (h * 3600000))"
proof -
  have d: "drop (length f + 13) (createTimezoneConvertedDateString f h lp)
             = drop 23 (createTimezoneConvertedDateString ''0000-00-00'' h False)"
    by (simp add: createTimezoneConvertedDateString_def Let_def length_time_part)
  have all: "\<forall>k \<in> set [- 23 .. 23].
               parse_offset (drop 23 (createTimezoneConvertedDateString ''0000-00-00'' k False))
                 = Some (- (k * 3600000))"
    by code_simp
  from assms have "h \<in> set [- 23 .. 23]" by (simp only: set_upto atLeastAtMost_iff)
  with all show ?thesis unfolding d by blast
qed

lemma Date_getTime_create:
  assumes "length f = 10" "- 23 \<le> h" "h \<le> 23"
  shows "Date_getTime (createTimezoneConvertedDateString f h lp) =
           (case parse_date f of None \<Rightarrow> None
            | Some day \<Rightarrow> Some (day * 86400000 + (if lp then 86399999 else 0) + h * 3600000))"
proof -
  let ?s = "createTimezoneConvertedDateString f h lp"
  have s: "?s = f @ time_part lp @ drop 23 ?s"
    using create_split [of f h lp] assms(1) by simp
  have 1: "take 10 ?s = f"
    by (subst s) (simp add: assms(1))
  have 2: "take 13 (drop 10 ?s) = time_part lp"
    by (subst s) (simp add: assms(1) length_time_part)
  have 3: "parse_offset (drop 23 ?s) = Some (- (h * 3600000))"
    using offset_part [OF assms(2,3), of f lp] assms(1) by simp
  show ?thesis
    unfolding Date_getTime_def 1 2 3 parse_time_part
    by (simp split: option.splits)
qed

lemma getTimestampForISODate_offset:
  assumes "length f = 10" "- 23 \<le> h" "h \<le> 23"
  shows "getTimestampForISODate f h lp =
           map_option (\<lambda>t. t + 3600 * h) (getTimestampForISODate f 0 lp)"
proof -
  have "(x + h * 3600000) div 1000 = x div 1000 + 3600 * h" for x :: int
  proof -
    have "x + h * 3600000 = x + (3600 * h) * 1000" by simp
    then show ?thesis by simp
  qed
  then show ?thesis
    unfolding getTimestampForISODate_def
    by (simp add: Date_getTime_create assms split: option.splits)
qed

lemma length8E:
  assumes "length (d :: string) = 8"
  obtains c0 c1 c2 c3 c4 c5 c6 c7 where "d = [c0, c1, c2, c3, c4, c5, c6, c7]"
proof -
  from assms obtain c0 c1 c2 c3 c4 c5 c6 c7 r
    where "d = c0 # c1 # c2 # c3 # c4 # c5 # c6 # c7 # r" "length r = 0"
    by (auto simp: length_Suc_conv eval_nat_numeral)
  then show ?thesis using that by simp
qed

text \<open>A valid date string passes \<open>convertToIsoDate\<close>, and the Date constructor reads its date.\<close>

lemma valid_date_parse:
  assumes "valid_date_string d"
  shows "\<exists>f day. convertToIsoDate d = Inr f \<and> length f = 10 \<and> parse_date f = Some day"
proof -
  from assms have "length d = 8" by (simp add: valid_date_string_def)
  then obtain c0 c1 c2 c3 c4 c5 c6 c7 where d: "d = [c0, c1, c2, c3, c4, c5, c6, c7]"
    by (rule length8E)
  from assms show ?thesis
    unfolding d valid_date_string_def convertToIsoDate_def parse_date_def
    by (auto simp: substring_def split: option.splits)
qed

text \<open>
  C7: \<open>getTimestampForInputDate\<close> applied to the date string \<open>20230101\<close> with timezone
  offset 0 returns the timestamp \<open>1672531200\<close>.
\<close>

theorem getTimestampForInputDate_20230101:
  "getTimestampForInputDate ''20230101'' 0 False = Inr ''1672531200''"
  by code_simp

text \<open>
  C8, as stated for every integer offset, fails: an offset of 100 hours is written with
  three digits, the string is no date, and the result is \<open>NaN\<close> where the timestamp for
  offset 0 plus 360000 would be \<open>1672891200\<close>.
\<close>

theorem getTimestampForInputDate_offset_100:
  "getTimestampForInputDate ''20230101'' 0 False = Inr ''1672531200'' \<and>
   getTimestampForInputDate ''20230101'' 100 False = Inr ''NaN'' \<and>
   int_toString (1672531200 + 3600 * 100) = ''1672891200''"
  by code_simp

text \<open>
  C8, amended: for every valid 8-digit date string and every integer offset \<open>h\<close> in hours
  from -23 to 23, the timestamp \<open>getTimestampForInputDate\<close> returns is a number, and it is
  the timestamp returned for offset 0 plus \<open>3600 * h\<close>.
\<close>

theorem getTimestampForInputDate_offset:
  assumes "valid_date_string d" "- 23 \<le> h" "h \<le> 23"
  shows "\<exists>t0. getTimestampForInputDate d 0 lp = Inr (int_toString t0) \<and>
              getTimestampForInputDate d h lp = Inr (int_toString (t0 + 3600 * h))"
proof -
  from valid_date_parse [OF assms(1)] obtain f day
    where f: "convertToIsoDate d = Inr f" "length f = 10" "parse_date f = Some day"
    by blast
  let ?t0 = "(day * 86400000 + (if lp then 86399999 else 0)) div 1000"
  have z: "getTimestampForISODate f 0 lp = Some ?t0"
    unfolding getTimestampForISODate_def
    by (simp add: Date_getTime_create f)
  have "getTimestampForISODate f h lp = Some (?t0 + 3600 * h)"
    unfolding getTimestampForISODate_offset [OF f(2) assms(2,3)] z by simp
  with z have "getTimestampForInputDate d 0 lp = Inr (int_toString ?t0) \<and>
               getTimestampForInputDate d h lp = Inr (int_toString (?t0 + 3600 * h))"
    by (simp only: getTimestampForInputDate_def f(1) number_toString_def sum.case option.case)
  then show ?thesis by (rule exI)
qed

theorem getTimestampForInputDate_offset_witness:
  "valid_date_string ''20230101'' \<and> (- 23 :: int) \<le> 5 \<and> (5 :: int) \<le> 23 \<and>
   (\<exists>t0. getTimestampForInputDate ''20230101'' 0 False = Inr (int_toString t0) \<and>
      getTimestampForInputDate ''20230101'' 5 False = Inr (int_toString (t0 + 3600 * 5)))"
proof -
  have v: "valid_date_string ''20230101''" by code_simp
  show ?thesis
    using v getTimestampForInputDate_offset [OF v, of 5 False] by simp
qed

end
